theory Spec2Isabelle
  imports Main "HOL-Library.Log_Nat"
begin

section \<open>Payment webhook reconciliation of the e-shop marketplace\<close>

text \<open>
  The development embeds the Stripe webhook route (\<^verbatim>\<open>export async function POST\<close>) and the
  \<^verbatim>\<open>Payment\<close> model of the Prisma schema. The route is a sequential function of the
  request and of the Domain Store; its collaborators that live outside the route
  (\<^verbatim>\<open>stripe.webhooks.constructEvent\<close> of the provider SDK and \<^verbatim>\<open>updatePaymentToPaid\<close> of
  \<^verbatim>\<open>@/lib/actions/payment.actions\<close>) are parameters of the embedded route. Exceptions are
  values of a sum type, the store is passed explicitly, and the two clock readings
  (\<^verbatim>\<open>new Date()\<close> in the route, \<^verbatim>\<open>now\<close> in the store update) are inputs. Logging
  (\<^verbatim>\<open>console.log\<close>, \<^verbatim>\<open>console.error\<close>) is not part of the observable state.
\<close>

subsection \<open>JavaScript numbers: division and \<^verbatim>\<open>toFixed()\<close>\<close>

text \<open>
  A finite JavaScript number is an IEEE 754 binary64 value; it is represented here by the
  rational it denotes. \<open>to_double\<close> rounds a rational to the nearest binary64 value with a
  53-bit significand, ties to even (normal range: no overflow or subnormals, which a
  quotient of an amount by 100 never reaches). \<^verbatim>\<open>toFixed()\<close> follows the two branches of
  the language definition: positional digits below \<open>10^21\<close>, \<^verbatim>\<open>Number::toString\<close> with its
  exponent notation from \<open>10^21\<close> on.
\<close>

definition pow2 :: "int \<Rightarrow> rat" where
  "pow2 e = (if 0 \<le> e then 2 ^ nat e else 1 / 2 ^ nat (- e))"

definition binade :: "rat \<Rightarrow> int" where
  \<comment> \<open>for \<open>x > 0\<close>: the exponent \<open>e\<close> with \<open>2^e \<le> x < 2^(e+1)\<close>\<close>
  "binade x =
     (case quotient_of x of (p, q) \<Rightarrow>
        let e0 = bitlen p - bitlen q in if pow2 e0 \<le> x then e0 else e0 - 1)"

definition round_ties_even :: "rat \<Rightarrow> int" where
  "round_ties_even x =
     (let f = \<lfloor>x\<rfloor>; d = x - of_int f
      in if d < 1 / 2 then f else if 1 / 2 < d then f + 1 else if even f then f else f + 1)"

definition to_double :: "rat \<Rightarrow> rat" where
  "to_double x =
     (if x = 0 then 0
      else let a = \<bar>x\<bar>; e = binade a - 52
           in sgn x * of_int (round_ties_even (a / pow2 e)) * pow2 e)"

definition js_divide :: "rat \<Rightarrow> rat \<Rightarrow> rat" where
  \<comment> \<open>the operator \<^verbatim>\<open>/\<close> on two finite numbers with a non-zero divisor\<close>
  "js_divide x y = to_double (x / y)"

definition digit_char :: "int \<Rightarrow> char" where
  "digit_char d = ''0123456789'' ! nat d"

function digits_of :: "int \<Rightarrow> string" where
  \<comment> \<open>the decimal digits of a non-negative integer\<close>
  "digits_of n =
     (if n < 10 then [digit_char n] else digits_of (n div 10) @ [digit_char (n mod 10)])"
  by pat_completeness auto
termination
  by (relation "measure nat") auto

declare digits_of.simps [simp del]

definition decimal_candidate :: "rat \<Rightarrow> nat \<Rightarrow> nat \<Rightarrow> int option" where
  \<comment> \<open>for \<open>10^(n-1) \<le> x < 10^n\<close> and \<open>k \<le> n\<close>: a significand \<open>s\<close> such that \<open>s * 10^(n-k)\<close>
      denotes the number \<open>x\<close> (it rounds to \<open>x\<close>), the one nearer to \<open>x\<close> if there are two\<close>
  "decimal_candidate x n k =
     (let u = 10 ^ (n - k); f = \<lfloor>x / u\<rfloor>; lo = of_int f * u; hi = of_int (f + 1) * u
      in if to_double lo = x \<and> (to_double hi \<noteq> x \<or> x - lo \<le> hi - x) then Some f
         else if to_double hi = x then Some (f + 1)
         else None)"

fun strip_zeros :: "string \<Rightarrow> string" where
  \<comment> \<open>drops the leading \<open>0\<close>s of a string (the trailing ones of its reversal)\<close>
  "strip_zeros [] = []"
| "strip_zeros (c # cs) = (if c = CHR ''0'' then strip_zeros cs else c # cs)"

fun shortest_digits :: "rat \<Rightarrow> nat \<Rightarrow> nat list \<Rightarrow> (int \<times> nat) option" where
  \<comment> \<open>the first digit count \<open>k\<close> of the list that has a significand, with that significand\<close>
  "shortest_digits x n [] = None"
| "shortest_digits x n (k # ks) =
     (case decimal_candidate x n k of
        Some s \<Rightarrow> Some (s, k)
      | None \<Rightarrow> shortest_digits x n ks)"

definition exponent_notation :: "string \<Rightarrow> nat \<Rightarrow> string" where
  \<comment> \<open>\<^verbatim>\<open>d.ddde+N\<close>, or \<^verbatim>\<open>de+N\<close> for a single digit\<close>
  "exponent_notation ds e =
     (case ds of
        [] \<Rightarrow> ''0''
      | d # rest \<Rightarrow>
          (if rest = [] then [d] else d # CHR ''.'' # rest) @ ''e+'' @ digits_of (int e))"

definition number_to_string :: "rat \<Rightarrow> string" where
  \<comment> \<open>\<^verbatim>\<open>Number::toString\<close> (radix 10) of a finite number \<open>x \<ge> 10^21\<close>: with \<open>n\<close> the number
      of digits of the integer \<open>x\<close>, the least \<open>k\<close> and a \<open>k\<close>-digit \<open>s\<close> such that
      \<open>s * 10^(n-k)\<close> denotes \<open>x\<close>, printed in exponent notation. The search ends at
      \<open>k = n\<close> at the latest, where \<open>s\<close> is \<open>x\<close> itself. (A significand rounded up to
      \<open>10^k\<close> has one digit more; its zeros are dropped and the exponent is one higher.)\<close>
  "number_to_string x =
     (let n = length (digits_of \<lfloor>x\<rfloor>)
      in case shortest_digits x n [1..<Suc n] of
           None \<Rightarrow> digits_of \<lfloor>x\<rfloor>
         | Some (s, k) \<Rightarrow>
             exponent_notation (rev (strip_zeros (rev (digits_of s))))
               (n + length (digits_of s) - k - 1))"

definition toFixed :: "rat \<Rightarrow> string" where
  \<comment> \<open>\<^verbatim>\<open>Number.prototype.toFixed()\<close> called without an argument: zero fraction digits.
      The sign is split off; a magnitude of \<open>10^21\<close> or more is printed by
      \<^verbatim>\<open>Number::toString\<close>, a smaller one as the integer nearest to it, the larger one on
      a tie.\<close>
  "toFixed x =
     (let s = (if x < 0 then ''-'' else ''''); a = \<bar>x\<bar>
      in if 10 ^ 21 \<le> a then s @ number_to_string a
         else s @ digits_of \<lfloor>a + 1 / 2\<rfloor>)"

subsection \<open>Data model\<close>

type_synonym timestamp = nat

text \<open>
  The result object that the route builds for \<^verbatim>\<open>updatePaymentToPaid\<close>; it becomes
  \<^verbatim>\<open>Payment.paymentResult\<close>.
\<close>

record payment_result =
  pr_id :: string
  pr_status :: string
  email_address :: "string option"
  pricePaid :: string
  pr_amount :: string
  created_at :: string

text \<open>
  \<^verbatim>\<open>model Payment\<close> of the schema. The primary key \<^verbatim>\<open>id\<close> is the key of the store; the
  relations \<^verbatim>\<open>user\<close> and \<^verbatim>\<open>invoices\<close> are lookups and carry no state of their own.
  \<open>None\<close> in \<open>paymentResult\<close> stands for a Json value that holds no provider result.
\<close>

record payment =
  userId :: string
  payment_amount :: rat
  paymentMethod :: string
  paymentResult :: "payment_result option"
  isPaid :: bool
  paidAt :: "timestamp option"
  createdAt :: timestamp
  emailSent :: bool
  emailSentAt :: "timestamp option"

type_synonym store = "string \<rightharpoonup> payment"

text \<open>The fields of \<^verbatim>\<open>Stripe.Charge\<close> and \<^verbatim>\<open>Stripe.Event\<close> that the route reads.\<close>

record charge =
  charge_id :: string
  charge_amount :: nat  \<comment> \<open>minor units: a non-negative integer that a number holds exactly\<close>
  charge_metadata :: "(string \<rightharpoonup> string) option"
  billing_email :: "string option"

record event =
  event_type :: string
  data_object :: charge

record request =
  req_body :: string
  stripe_signature :: "string option"

datatype thrown = JsError string | NonError

datatype json_body =
    Message string
  | ErrorOnly string
  | ErrorWithMessage string string

record response =
  resp_status :: nat
  resp_body :: json_body

subsection \<open>The route\<close>

definition truthy :: "string option \<Rightarrow> bool" where
  \<comment> \<open>JavaScript truthiness of a value that is a string, \<^verbatim>\<open>null\<close> or \<^verbatim>\<open>undefined\<close>\<close>
  "truthy v = (case v of None \<Rightarrow> False | Some s \<Rightarrow> s \<noteq> [])"

definition metadata_get :: "charge \<Rightarrow> string \<Rightarrow> string option" where
  \<comment> \<open>\<^verbatim>\<open>charge.metadata?.key\<close>\<close>
  "metadata_get c k = (case charge_metadata c of None \<Rightarrow> None | Some m \<Rightarrow> m k)"

definition payment_result_of :: "charge \<Rightarrow> string \<Rightarrow> payment_result" where
  \<comment> \<open>the object literal passed as second argument to \<^verbatim>\<open>updatePaymentToPaid\<close>\<close>
  "payment_result_of c now_iso =
     \<lparr> pr_id = charge_id c,
       pr_status = ''COMPLETED'',
       email_address = billing_email c,
       pricePaid = toFixed (js_divide (of_nat (charge_amount c)) 100),
       pr_amount = toFixed (js_divide (of_nat (charge_amount c)) 100),
       created_at = now_iso \<rparr>"

definition json_response :: "json_body \<Rightarrow> nat \<Rightarrow> response" where
  "json_response b s = \<lparr> resp_status = s, resp_body = b \<rparr>"

definition caught :: "thrown \<Rightarrow> response" where
  \<comment> \<open>the \<^verbatim>\<open>catch\<close> block of the route\<close>
  "caught e =
     json_response
       (ErrorWithMessage ''Failed to create conversation''
          (case e of JsError m \<Rightarrow> m | NonError \<Rightarrow> ''Unknown error''))
       500"

definition POST ::
  "(string \<Rightarrow> string \<Rightarrow> thrown + event) \<Rightarrow>
   (string option \<Rightarrow> payment_result \<Rightarrow> 'st \<Rightarrow> (thrown + unit) \<times> 'st) \<Rightarrow>
   string \<Rightarrow> request \<Rightarrow> 'st \<Rightarrow> response \<times> 'st" where
  "POST constructEvent updatePaymentToPaid now_iso req st =
     (let body = req_body req; signature = stripe_signature req
      in if \<not> truthy signature
         then (json_response (ErrorOnly ''No signature header'') 400, st)
         else
           (case signature of
              None \<Rightarrow> \<comment> \<open>not reached: a truthy header value is a string\<close>
                (json_response (ErrorOnly ''No signature header'') 400, st)
            | Some sg \<Rightarrow>
               (case constructEvent body sg of
                  Inl e \<Rightarrow> (caught e, st)
                | Inr ev \<Rightarrow>
                    if event_type ev = ''charge.succeeded''
                    then
                      (let c = data_object ev
                       in if \<not> truthy (metadata_get c ''orderId'')
                          then (json_response
                                  (ErrorOnly ''No orderId found in payment metadata'') 400, st)
                          else
                            (case updatePaymentToPaid (metadata_get c ''paymentId'')
                                    (payment_result_of c now_iso) st of
                               (Inl e, st') \<Rightarrow> (caught e, st')
                             | (Inr u, st') \<Rightarrow>
                                 (json_response
                                    (Message ''updateOrderToPaid was successful'') 200, st'))
                      )
                    else (json_response (Message ''event is not charge.succeeded'') 200, st)))
     )"

subsection \<open>The Domain Store primitive behind \<^verbatim>\<open>updatePaymentToPaid\<close>\<close>

text \<open>
  Modelled from the spec: \<^verbatim>\<open>findPaymentById(id) -> Payment | NotFound\<close> of the Domain
  Store, whose source is missing. An \<^verbatim>\<open>undefined\<close> identifier resolves to
  no Payment.
\<close>

definition findPaymentById :: "store \<Rightarrow> string option \<Rightarrow> payment option" where
  "findPaymentById st pid = (case pid of None \<Rightarrow> None | Some i \<Rightarrow> st i)"

text \<open>
  Modelled from the spec: \<^verbatim>\<open>markPaymentPaid(id, resultPayload)\<close> of the Domain Store, the
  conditional write of section 5 (guarded on \<^verbatim>\<open>isPaid = false\<close>) that sets
  \<^verbatim>\<open>isPaid = true\<close>, \<^verbatim>\<open>paidAt = now\<close> and \<^verbatim>\<open>paymentResult\<close>.
\<close>

definition markPaymentPaid ::
  "timestamp \<Rightarrow> string \<Rightarrow> payment_result \<Rightarrow> store \<Rightarrow> store" where
  "markPaymentPaid now i res st =
     (case st i of
        None \<Rightarrow> st
      | Some p \<Rightarrow>
          if isPaid p then st
          else st(i \<mapsto> p\<lparr> paymentResult := Some res, isPaid := True, paidAt := Some now \<rparr>))"

text \<open>
  Modelled from the spec: the error \<^verbatim>\<open>UnknownPayment\<close> of step 3 of the reconciliation
  algorithm (the source of \<^verbatim>\<open>updatePaymentToPaid\<close> is missing, so is its message).
\<close>

definition UnknownPaymentError :: thrown where
  "UnknownPaymentError = JsError ''UnknownPayment''"

text \<open>
  Modelled from the spec: \<^verbatim>\<open>updatePaymentToPaid\<close> of \<^verbatim>\<open>@/lib/actions/payment.actions\<close>,
  which the route imports and whose source is missing. It follows steps 3 to 5 of the
  reconciliation algorithm: resolve the Payment and fail with \<^verbatim>\<open>UnknownPayment\<close> when there
  is none; succeed without mutation when the Payment is already paid; otherwise mark it
  paid in one write.
\<close>

definition updatePaymentToPaid ::
  "timestamp \<Rightarrow> string option \<Rightarrow> payment_result \<Rightarrow> store \<Rightarrow> (thrown + unit) \<times> store" where
  "updatePaymentToPaid now pid res st =
     (case pid of
        None \<Rightarrow> (Inl UnknownPaymentError, st)
      | Some i \<Rightarrow>
          (case findPaymentById st (Some i) of
             None \<Rightarrow> (Inl UnknownPaymentError, st)
           | Some p \<Rightarrow>
               if isPaid p then (Inr (), st) else (Inr (), markPaymentPaid now i res st)))"

subsection \<open>Deliveries in sequence\<close>

text \<open>
  A delivery is one invocation of the route: the request together with the two clock
  readings taken while it is served. \<open>deliver_all\<close> serves a list of deliveries one after
  the other against the store.
\<close>

record delivery =
  d_request :: request
  d_now_iso :: string
  d_now :: timestamp

definition deliver ::
  "(string \<Rightarrow> string \<Rightarrow> thrown + event) \<Rightarrow> delivery \<Rightarrow> store \<Rightarrow> response \<times> store" where
  "deliver constructEvent d st =
     POST constructEvent (updatePaymentToPaid (d_now d)) (d_now_iso d) (d_request d) st"

fun deliver_all ::
  "(string \<Rightarrow> string \<Rightarrow> thrown + event) \<Rightarrow> delivery list \<Rightarrow> store \<Rightarrow> store" where
  "deliver_all constructEvent [] st = st"
| "deliver_all constructEvent (d # ds) st =
     deliver_all constructEvent ds (snd (deliver constructEvent d st))"

definition payment_inv :: "payment \<Rightarrow> bool" where
  \<comment> \<open>\<^verbatim>\<open>paidAt\<close> is set iff \<^verbatim>\<open>isPaid\<close> is true\<close>
  "payment_inv p = (isPaid p = (paidAt p \<noteq> None))"

subsection \<open>Sample inputs\<close>

text \<open>
  Concrete requests, events and stores on which the theorems below are instantiated. The
  provider SDK is replaced by \<open>sample_constructEvent\<close>, which accepts exactly the signature
  \<open>sample_signature\<close> and reads the event off the body; \<open>recording_update\<close> is an update
  action whose store is the list of payment identifiers it has been called with.
\<close>

definition sample_signature :: string where
  "sample_signature = ''t=1,v1=5257a869''"

definition sample_charge :: "(string \<rightharpoonup> string) option \<Rightarrow> charge" where
  "sample_charge md =
     \<lparr> charge_id = ''ch_1'', charge_amount = 12345, charge_metadata = md,
       billing_email = Some ''payer@example.com'' \<rparr>"

definition sample_event :: "string \<Rightarrow> event" where
  "sample_event body =
     (if body = ''charge-full''
      then \<lparr> event_type = ''charge.succeeded'',
             data_object = sample_charge
               (Some [''orderId'' \<mapsto> ''ord_1'', ''paymentId'' \<mapsto> ''pay_1'']) \<rparr>
      else if body = ''charge-no-paymentId''
      then \<lparr> event_type = ''charge.succeeded'',
             data_object = sample_charge (Some [''orderId'' \<mapsto> ''ord_1'']) \<rparr>
      else if body = ''charge-empty-orderId''
      then \<lparr> event_type = ''charge.succeeded'',
             data_object = sample_charge
               (Some [''orderId'' \<mapsto> [], ''paymentId'' \<mapsto> ''pay_1'']) \<rparr>
      else if body = ''charge-no-orderId''
      then \<lparr> event_type = ''charge.succeeded'',
             data_object = sample_charge (Some [''paymentId'' \<mapsto> ''pay_1'']) \<rparr>
      else \<lparr> event_type = ''payment_intent.created'',
             data_object = sample_charge None \<rparr>)"

definition sample_constructEvent :: "string \<Rightarrow> string \<Rightarrow> thrown + event" where
  "sample_constructEvent body sg =
     (if sg = sample_signature then Inr (sample_event body)
      else Inl (JsError ''No signatures found matching the expected signature for payload''))"

definition sample_request :: "string \<Rightarrow> request" where
  "sample_request body = \<lparr> req_body = body, stripe_signature = Some sample_signature \<rparr>"

definition recording_update ::
  "string option \<Rightarrow> payment_result \<Rightarrow> string option list \<Rightarrow>
   (thrown + unit) \<times> string option list" where
  "recording_update pid res calls = (Inr (), calls @ [pid])"

definition sample_payment :: payment where
  "sample_payment =
     \<lparr> userId = ''user_1'', payment_amount = 12345 / 100, paymentMethod = ''Stripe'',
       paymentResult = None, isPaid = False, paidAt = None, createdAt = 1000,
       emailSent = False, emailSentAt = None \<rparr>"

definition sample_store :: store where
  "sample_store = [''pay_1'' \<mapsto> sample_payment]"

subsection \<open>Steps of the route\<close>

lemma POST_no_signature:
  "\<not> truthy (stripe_signature req) \<Longrightarrow>
   POST v upd ts req st = (json_response (ErrorOnly ''No signature header'') 400, st)"
  by (simp add: POST_def)

lemma POST_rejected:
  "stripe_signature req = Some sg \<Longrightarrow> sg \<noteq> [] \<Longrightarrow> v (req_body req) sg = Inl e \<Longrightarrow>
   POST v upd ts req st = (caught e, st)"
  by (simp add: POST_def truthy_def)

lemma POST_other_event:
  "stripe_signature req = Some sg \<Longrightarrow> sg \<noteq> [] \<Longrightarrow> v (req_body req) sg = Inr ev \<Longrightarrow>
   event_type ev \<noteq> ''charge.succeeded'' \<Longrightarrow>
   POST v upd ts req st = (json_response (Message ''event is not charge.succeeded'') 200, st)"
  by (simp add: POST_def truthy_def)

lemma POST_no_orderId:
  "stripe_signature req = Some sg \<Longrightarrow> sg \<noteq> [] \<Longrightarrow> v (req_body req) sg = Inr ev \<Longrightarrow>
   event_type ev = ''charge.succeeded'' \<Longrightarrow>
   \<not> truthy (metadata_get (data_object ev) ''orderId'') \<Longrightarrow>
   POST v upd ts req st =
     (json_response (ErrorOnly ''No orderId found in payment metadata'') 400, st)"
  by (simp add: POST_def truthy_def)

lemma POST_update:
  "stripe_signature req = Some sg \<Longrightarrow> sg \<noteq> [] \<Longrightarrow> v (req_body req) sg = Inr ev \<Longrightarrow>
   event_type ev = ''charge.succeeded'' \<Longrightarrow>
   truthy (metadata_get (data_object ev) ''orderId'') \<Longrightarrow>
   POST v upd ts req st =
     (case upd (metadata_get (data_object ev) ''paymentId'')
             (payment_result_of (data_object ev) ts) st of
        (Inl e, st') \<Rightarrow> (caught e, st')
      | (Inr u, st') \<Rightarrow>
          (json_response (Message ''updateOrderToPaid was successful'') 200, st'))"
  by (simp add: POST_def truthy_def Let_def)

lemma caught_status: "resp_status (caught e) = 500"
  by (simp add: caught_def json_response_def)

subsection \<open>Steps of the store update\<close>

lemma updatePaymentToPaid_pending:
  "st i = Some p \<Longrightarrow> \<not> isPaid p \<Longrightarrow>
   updatePaymentToPaid now (Some i) res st =
     (Inr (), st(i \<mapsto> p\<lparr> paymentResult := Some res, isPaid := True, paidAt := Some now \<rparr>))"
  by (simp add: updatePaymentToPaid_def findPaymentById_def markPaymentPaid_def)

lemma updatePaymentToPaid_paid:
  "st i = Some p \<Longrightarrow> isPaid p \<Longrightarrow> updatePaymentToPaid now (Some i) res st = (Inr (), st)"
  by (simp add: updatePaymentToPaid_def findPaymentById_def)

lemma updatePaymentToPaid_unknown:
  "findPaymentById st pid = None \<Longrightarrow>
   updatePaymentToPaid now pid res st = (Inl UnknownPaymentError, st)"
  by (cases pid) (simp_all add: updatePaymentToPaid_def)

lemma POST_resolved:
  assumes "stripe_signature req = Some sg" and "sg \<noteq> []"
    and "v (req_body req) sg = Inr ev"
    and "event_type ev = ''charge.succeeded''"
    and "truthy (metadata_get (data_object ev) ''orderId'')"
    and "metadata_get (data_object ev) ''paymentId'' = Some i"
    and "st i = Some p"
  shows "POST v (updatePaymentToPaid now) ts req st =
     (json_response (Message ''updateOrderToPaid was successful'') 200,
      if isPaid p then st
      else st(i \<mapsto> p\<lparr> paymentResult := Some (payment_result_of (data_object ev) ts),
                       isPaid := True, paidAt := Some now \<rparr>))"
  using assms
  by (simp add: POST_update updatePaymentToPaid_pending updatePaymentToPaid_paid)

subsection \<open>What a delivery can do to the store\<close>

lemma POST_store_cases:
  "snd (POST v upd ts req st) = st \<or>
   (\<exists>pid res. snd (POST v upd ts req st) = snd (upd pid res st))"
proof (cases "truthy (stripe_signature req)")
  case False
  then show ?thesis by (simp add: POST_no_signature)
next
  case True
  then obtain sg where sg: "stripe_signature req = Some sg" "sg \<noteq> []"
    by (auto simp add: truthy_def split: option.splits)
  show ?thesis
  proof (cases "v (req_body req) sg")
    case (Inl e)
    then show ?thesis using sg by (simp add: POST_rejected)
  next
    case (Inr ev)
    show ?thesis
    proof (cases "event_type ev = ''charge.succeeded''")
      case False
      then show ?thesis using sg Inr by (simp add: POST_other_event)
    next
      case charge: True
      show ?thesis
      proof (cases "truthy (metadata_get (data_object ev) ''orderId'')")
        case False
        then show ?thesis using sg Inr charge by (simp add: POST_no_orderId)
      next
        case True
        let ?pid = "metadata_get (data_object ev) ''paymentId''"
        let ?res = "payment_result_of (data_object ev) ts"
        have "snd (POST v upd ts req st) = snd (upd ?pid ?res st)"
          using POST_update [where v = v and upd = upd and st = st, OF sg Inr charge True]
          by (cases "upd ?pid ?res st") (auto split: sum.splits)
        then show ?thesis by blast
      qed
    qed
  qed
qed

lemma updatePaymentToPaid_keeps_inv:
  assumes "st i = Some p" and "payment_inv p"
  shows "\<exists>q. snd (updatePaymentToPaid now pid res st) i = Some q \<and> payment_inv q \<and>
             (isPaid p \<longrightarrow> q = p)"
proof (cases pid)
  case None
  then show ?thesis using assms by (simp add: updatePaymentToPaid_def)
next
  case (Some j)
  show ?thesis
  proof (cases "st j")
    case None
    then show ?thesis
      using assms Some by (simp add: updatePaymentToPaid_def findPaymentById_def)
  next
    case (Some r)
    show ?thesis
    proof (cases "isPaid r")
      case True
      then show ?thesis
        using assms \<open>pid = Some j\<close> Some by (simp add: updatePaymentToPaid_paid)
    next
      case False
      then show ?thesis
        using assms \<open>pid = Some j\<close> Some
        by (auto simp add: updatePaymentToPaid_pending payment_inv_def)
    qed
  qed
qed

lemma deliver_keeps_inv:
  assumes "st i = Some p" and "payment_inv p"
  shows "\<exists>q. snd (deliver v d st) i = Some q \<and> payment_inv q \<and> (isPaid p \<longrightarrow> q = p)"
  using POST_store_cases [of v "updatePaymentToPaid (d_now d)" "d_now_iso d" "d_request d" st]
    updatePaymentToPaid_keeps_inv [where st = st and i = i and p = p and now = "d_now d"] assms
  by (auto simp add: deliver_def)

subsection \<open>Facts about the sample inputs\<close>

lemma sample_full_facts:
  "stripe_signature (sample_request b) = Some sample_signature"
  "sample_signature \<noteq> []"
  "sample_constructEvent (req_body (sample_request b)) sample_signature = Inr (sample_event b)"
  by (simp_all add: sample_request_def sample_signature_def sample_constructEvent_def)

lemma sample_event_full:
  "event_type (sample_event ''charge-full'') = ''charge.succeeded''"
  "metadata_get (data_object (sample_event ''charge-full'')) ''orderId'' = Some ''ord_1''"
  "metadata_get (data_object (sample_event ''charge-full'')) ''paymentId'' = Some ''pay_1''"
  by (simp_all add: sample_event_def sample_charge_def metadata_get_def)

lemma sample_event_variants:
  "event_type (sample_event ''charge-no-paymentId'') = ''charge.succeeded''"
  "metadata_get (data_object (sample_event ''charge-no-paymentId'')) ''orderId'' = Some ''ord_1''"
  "metadata_get (data_object (sample_event ''charge-no-paymentId'')) ''paymentId'' = None"
  "event_type (sample_event ''charge-empty-orderId'') = ''charge.succeeded''"
  "metadata_get (data_object (sample_event ''charge-empty-orderId'')) ''orderId'' = Some []"
  "event_type (sample_event ''charge-no-orderId'') = ''charge.succeeded''"
  "metadata_get (data_object (sample_event ''charge-no-orderId'')) ''orderId'' = None"
  "event_type (sample_event ''ping'') = ''payment_intent.created''"
  by (simp_all add: sample_event_def sample_charge_def metadata_get_def)

lemma sample_first_delivery:
  "POST sample_constructEvent (updatePaymentToPaid now) ts (sample_request ''charge-full'')
     sample_store =
   (json_response (Message ''updateOrderToPaid was successful'') 200,
    sample_store(''pay_1'' \<mapsto> sample_payment
      \<lparr> paymentResult := Some (payment_result_of (data_object (sample_event ''charge-full'')) ts),
        isPaid := True, paidAt := Some now \<rparr>))"
  using POST_update [where v = sample_constructEvent and sg = sample_signature
      and req = "sample_request ''charge-full''" and ev = "sample_event ''charge-full''"
      and upd = "updatePaymentToPaid now" and st = sample_store and ts = ts]
    updatePaymentToPaid_pending [where st = sample_store and i = "''pay_1''"
      and p = sample_payment and now = now]
  by (simp add: sample_full_facts sample_event_full truthy_def sample_store_def
        sample_payment_def)

subsection \<open>What \<^verbatim>\<open>toFixed()\<close> prints\<close>

lemma digit_char_is_digit: "d < 10 \<Longrightarrow> digit_char d \<in> set ''0123456789''"
  unfolding digit_char_def by (rule nth_mem) simp

lemma digits_of_are_digits: "set (digits_of n) \<subseteq> set ''0123456789''"
proof (induction n rule: digits_of.induct)
  case (1 n)
  show ?case
  proof (cases "n < 10")
    case True
    then show ?thesis
      using digit_char_is_digit [of n] by (subst digits_of.simps) simp
  next
    case False
    have "n mod 10 < 10" by simp
    then have "digit_char (n mod 10) \<in> set ''0123456789''"
      by (rule digit_char_is_digit)
    then show ?thesis
      using False "1.IH" by (subst digits_of.simps) simp
  qed
qed

lemma toFixed_prints_no_fraction:
  "\<bar>x\<bar> < 10 ^ 21 \<Longrightarrow> CHR ''.'' \<notin> set (toFixed x)"
  using digits_of_are_digits [of "\<lfloor>\<bar>x\<bar> + 1 / 2\<rfloor>"]
  by (auto simp add: toFixed_def Let_def)

lemma toFixed_exponent_notation:
  "toFixed (js_divide (10 ^ 23) 100) = ''1e+21''"
  "toFixed (2 ^ 70) = ''1.1805916207174113e+21''"
  by code_simp+

lemma toFixed_12345: "toFixed (js_divide 12345 100) = ''123''"
  by code_simp

section \<open>The claims\<close>

subsection \<open>C1: the recorded major-unit amount\<close>

text \<open>
  C1 states that the amount recorded in \<^verbatim>\<open>paymentResult\<close> (fields \<^verbatim>\<open>pricePaid\<close> and
  \<^verbatim>\<open>amount\<close>) is the minor-unit amount divided by 100 with two decimals, so that 12345
  minor units are recorded as \<^verbatim>\<open>"123.45"\<close>. The route calls \<^verbatim>\<open>toFixed()\<close> without a digit
  count, which prints no fraction digits: for a charge of 12345 minor units both fields
  hold \<^verbatim>\<open>"123"\<close>, and the 45 cents are lost. (Below \<open>10^21\<close> nothing is printed with a
  decimal point: \<open>toFixed_prints_no_fraction\<close>.)
\<close>

theorem C1_recorded_amount_drops_the_cents:
  "pricePaid (payment_result_of (sample_charge None) ''2025-01-01T00:00:00.000Z'') = ''123'' \<and>
   pr_amount (payment_result_of (sample_charge None) ''2025-01-01T00:00:00.000Z'') = ''123'' \<and>
   charge_amount (sample_charge None) = 12345"
  by (simp add: payment_result_of_def sample_charge_def toFixed_12345)

subsection \<open>C2: a pending Payment becomes paid\<close>

text \<open>
  C2 states that, for a request whose signature verifies and whose event is
  \<^verbatim>\<open>charge.succeeded\<close> with correlation metadata naming a Payment with \<^verbatim>\<open>isPaid = false\<close>, the
  route answers 200 with a message body and the Payment afterwards has \<^verbatim>\<open>isPaid = true\<close>,
  \<^verbatim>\<open>paidAt\<close> set and \<^verbatim>\<open>paymentResult\<close> holding the charge id, a status, the payer email and
  the derived major-unit amount. The route does answer 200 and the Payment is marked paid
  with the result object of the route (\<open>POST_resolved\<close>); but the amount in that object is
  the zero-digit rendering of C1. The theorem evaluates the route on the sample event of
  12345 minor units against the store holding the pending sample Payment: the paid Payment
  records \<^verbatim>\<open>"123"\<close> in \<^verbatim>\<open>pricePaid\<close> and \<^verbatim>\<open>amount\<close>, which is not the major-unit amount 123.45.
\<close>

theorem C2_paid_payment_records_the_rounded_amount:
  "charge_amount (data_object (sample_event ''charge-full'')) = 12345 \<and>
   sample_store ''pay_1'' = Some sample_payment \<and> \<not> isPaid sample_payment \<and>
   POST sample_constructEvent (updatePaymentToPaid 2000) ''2025-01-01T00:00:00.000Z''
     (sample_request ''charge-full'') sample_store =
   (\<lparr> resp_status = 200, resp_body = Message ''updateOrderToPaid was successful'' \<rparr>,
    sample_store(''pay_1'' \<mapsto> sample_payment
      \<lparr> paymentResult := Some
          \<lparr> pr_id = ''ch_1'', pr_status = ''COMPLETED'',
            email_address = Some ''payer@example.com'',
            pricePaid = ''123'', pr_amount = ''123'',
            created_at = ''2025-01-01T00:00:00.000Z'' \<rparr>,
        isPaid := True, paidAt := Some 2000 \<rparr>))"
proof -
  have result:
    "payment_result_of (data_object (sample_event ''charge-full'')) ''2025-01-01T00:00:00.000Z'' =
       \<lparr> pr_id = ''ch_1'', pr_status = ''COMPLETED'',
         email_address = Some ''payer@example.com'',
         pricePaid = ''123'', pr_amount = ''123'',
         created_at = ''2025-01-01T00:00:00.000Z'' \<rparr>"
    by (simp add: payment_result_of_def sample_event_def sample_charge_def toFixed_12345)
  have pending:
    "charge_amount (data_object (sample_event ''charge-full'')) = 12345"
    "sample_store ''pay_1'' = Some sample_payment" "\<not> isPaid sample_payment"
    by (simp_all add: sample_event_def sample_charge_def sample_store_def sample_payment_def)
  show ?thesis
    by (simp only: sample_first_delivery result pending json_response_def) simp
qed

subsection \<open>C3: redelivery of the same event\<close>

text \<open>
  C3: processing is idempotent per Payment. For a verified \<^verbatim>\<open>charge.succeeded\<close> event
  whose correlation resolves to a Payment, the first delivery answers 200 and leaves the
  Payment paid; a second delivery of the identical request, served later (other clock
  readings), answers 200 again and leaves the whole store as the first delivery left it:
  \<^verbatim>\<open>paidAt\<close> is unchanged, nothing is written twice and no error is returned.
\<close>

theorem C3_redelivery_is_a_noop:
  assumes "stripe_signature req = Some sg" and "sg \<noteq> []"
    and "v (req_body req) sg = Inr ev"
    and "event_type ev = ''charge.succeeded''"
    and "truthy (metadata_get (data_object ev) ''orderId'')"
    and "metadata_get (data_object ev) ''paymentId'' = Some i"
    and "st i = Some p"
    and "POST v (updatePaymentToPaid now1) ts1 req st = (r1, st1)"
    and "POST v (updatePaymentToPaid now2) ts2 req st1 = (r2, st2)"
  shows "resp_status r1 = 200 \<and> (\<exists>q. st1 i = Some q \<and> isPaid q) \<and>
         r2 = \<lparr> resp_status = 200, resp_body = Message ''updateOrderToPaid was successful'' \<rparr> \<and>
         st2 = st1"
proof -
  let ?paid = "p\<lparr> paymentResult := Some (payment_result_of (data_object ev) ts1),
                  isPaid := True, paidAt := Some now1 \<rparr>"
  have first: "r1 = json_response (Message ''updateOrderToPaid was successful'') 200"
    "st1 = (if isPaid p then st else st(i \<mapsto> ?paid))"
    using POST_resolved [where v = v and req = req and sg = sg and ev = ev and i = i
        and st = st and p = p and now = now1 and ts = ts1] assms(1-8)
    by simp_all
  obtain q where q: "st1 i = Some q" "isPaid q"
    using first(2) assms(7) by (cases "isPaid p") simp_all
  have second: "POST v (updatePaymentToPaid now2) ts2 req st1 =
      (json_response (Message ''updateOrderToPaid was successful'') 200, st1)"
    using POST_resolved [where v = v and req = req and sg = sg and ev = ev and i = i
        and st = st1 and p = q and now = now2 and ts = ts2] assms(1-6) q
    by simp
  show ?thesis
    using first(1) q second assms(9) by (auto simp add: json_response_def)
qed

theorem C3_witness:
  "snd (POST sample_constructEvent (updatePaymentToPaid 7000) ''2025-01-01T00:00:05.000Z''
          (sample_request ''charge-full'')
          (snd (POST sample_constructEvent (updatePaymentToPaid 2000)
                  ''2025-01-01T00:00:00.000Z'' (sample_request ''charge-full'') sample_store))) =
   snd (POST sample_constructEvent (updatePaymentToPaid 2000)
          ''2025-01-01T00:00:00.000Z'' (sample_request ''charge-full'') sample_store) \<and>
   fst (POST sample_constructEvent (updatePaymentToPaid 7000) ''2025-01-01T00:00:05.000Z''
          (sample_request ''charge-full'')
          (snd (POST sample_constructEvent (updatePaymentToPaid 2000)
                  ''2025-01-01T00:00:00.000Z'' (sample_request ''charge-full'') sample_store))) =
   \<lparr> resp_status = 200, resp_body = Message ''updateOrderToPaid was successful'' \<rparr>"
proof -
  let ?first = "POST sample_constructEvent (updatePaymentToPaid 2000)
                  ''2025-01-01T00:00:00.000Z'' (sample_request ''charge-full'') sample_store"
  let ?second = "POST sample_constructEvent (updatePaymentToPaid 7000)
                  ''2025-01-01T00:00:05.000Z'' (sample_request ''charge-full'') (snd ?first)"
  have "stripe_signature (sample_request ''charge-full'') = Some sample_signature"
    and "sample_signature \<noteq> []"
    and "sample_constructEvent (req_body (sample_request ''charge-full''))
           sample_signature = Inr (sample_event ''charge-full'')"
    and "event_type (sample_event ''charge-full'') = ''charge.succeeded''"
    and "truthy (metadata_get (data_object (sample_event ''charge-full'')) ''orderId'')"
    and "metadata_get (data_object (sample_event ''charge-full'')) ''paymentId'' = Some ''pay_1''"
    and "sample_store ''pay_1'' = Some sample_payment"
    and "?first = (fst ?first, snd ?first)"
    and "?second = (fst ?second, snd ?second)"
    by (simp_all add: sample_full_facts sample_event_full truthy_def sample_store_def)
  from C3_redelivery_is_a_noop [where v = sample_constructEvent and st = sample_store
      and i = "''pay_1''" and ?st1.0 = "snd ?first" and ?st2.0 = "snd ?second", OF this]
  show ?thesis
    by simp
qed

subsection \<open>C4: the correlation check reads \<^verbatim>\<open>orderId\<close>, the update receives \<^verbatim>\<open>paymentId\<close>\<close>

text \<open>
  C4 as stated says that a \<^verbatim>\<open>charge.succeeded\<close> event is answered with the 400
  missing-correlation response if and only if \<^verbatim>\<open>metadata.orderId\<close> is absent. The check is
  \<^verbatim>\<open>!charge.metadata?.orderId\<close>, a truthiness test: an event whose metadata holds the key
  \<^verbatim>\<open>orderId\<close> with the empty string as value is answered 400 as well, and the update
  action is not called.
\<close>

theorem C4_counterexample:
  "sample_constructEvent (req_body (sample_request ''charge-empty-orderId'')) sample_signature =
     Inr (sample_event ''charge-empty-orderId'') \<and>
   event_type (sample_event ''charge-empty-orderId'') = ''charge.succeeded'' \<and>
   metadata_get (data_object (sample_event ''charge-empty-orderId'')) ''orderId'' = Some [] \<and>
   POST sample_constructEvent recording_update ''2025-01-01T00:00:00.000Z''
     (sample_request ''charge-empty-orderId'') [] =
     (\<lparr> resp_status = 400, resp_body = ErrorOnly ''No orderId found in payment metadata'' \<rparr>, [])"
proof -
  have "POST sample_constructEvent recording_update ''2025-01-01T00:00:00.000Z''
     (sample_request ''charge-empty-orderId'') [] =
     (json_response (ErrorOnly ''No orderId found in payment metadata'') 400, [])"
    by (rule POST_no_orderId [where sg = sample_signature
          and ev = "sample_event ''charge-empty-orderId''"])
       (simp_all add: sample_full_facts sample_event_variants truthy_def)
  then show ?thesis
    by (simp add: sample_full_facts sample_event_variants json_response_def)
qed

text \<open>
  C4, amended: for every verified \<^verbatim>\<open>charge.succeeded\<close> event the route answers with the 400
  missing-correlation response if and only if \<^verbatim>\<open>metadata.orderId\<close> is absent or the empty
  string. When \<^verbatim>\<open>metadata.orderId\<close> is non-empty, the identifier passed to
  \<^verbatim>\<open>updatePaymentToPaid\<close> is \<^verbatim>\<open>metadata.paymentId\<close>, whatever update action is plugged in;
  so an event with \<^verbatim>\<open>orderId\<close> but without \<^verbatim>\<open>paymentId\<close> passes the check and triggers the
  update call with an undefined payment identifier.
\<close>

theorem C4_correlation_check_reads_orderId_and_passes_paymentId:
  assumes "stripe_signature req = Some sg" and "sg \<noteq> []"
    and "v (req_body req) sg = Inr ev"
    and "event_type ev = ''charge.succeeded''"
  shows "((fst (POST v upd ts req st) =
            \<lparr> resp_status = 400, resp_body = ErrorOnly ''No orderId found in payment metadata'' \<rparr>)
          = (metadata_get (data_object ev) ''orderId'' = None \<or>
             metadata_get (data_object ev) ''orderId'' = Some [])) \<and>
         (truthy (metadata_get (data_object ev) ''orderId'') \<longrightarrow>
          POST v upd ts req st =
            (case upd (metadata_get (data_object ev) ''paymentId'')
                    (payment_result_of (data_object ev) ts) st of
               (Inl e, st') \<Rightarrow> (caught e, st')
             | (Inr u, st') \<Rightarrow>
                 (json_response (Message ''updateOrderToPaid was successful'') 200, st'))) \<and>
         (truthy (metadata_get (data_object ev) ''orderId'') \<and>
          metadata_get (data_object ev) ''paymentId'' = None \<longrightarrow>
          POST v upd ts req st =
            (case upd None (payment_result_of (data_object ev) ts) st of
               (Inl e, st') \<Rightarrow> (caught e, st')
             | (Inr u, st') \<Rightarrow>
                 (json_response (Message ''updateOrderToPaid was successful'') 200, st')))"
proof -
  let ?c = "data_object ev"
  let ?missing =
    "\<lparr> resp_status = 400, resp_body = ErrorOnly ''No orderId found in payment metadata'' \<rparr>"
  have falsy: "(\<not> truthy (metadata_get ?c ''orderId'')) =
      (metadata_get ?c ''orderId'' = None \<or> metadata_get ?c ''orderId'' = Some [])"
    by (simp add: truthy_def split: option.splits)
  have check: "(fst (POST v upd ts req st) = ?missing)
         = (metadata_get ?c ''orderId'' = None \<or> metadata_get ?c ''orderId'' = Some [])"
  proof (cases "truthy (metadata_get ?c ''orderId'')")
    case False
    then show ?thesis
      using POST_no_orderId [where v = v and st = st, OF assms False] falsy
      by (simp add: json_response_def)
  next
    case True
    obtain r st' where
      upd: "upd (metadata_get ?c ''paymentId'') (payment_result_of ?c ts) st = (r, st')"
      by (cases "upd (metadata_get ?c ''paymentId'') (payment_result_of ?c ts) st")
    have "resp_status (fst (POST v upd ts req st)) \<noteq> 400"
      using POST_update [where v = v and st = st and upd = upd, OF assms True] upd
      by (cases r) (simp_all add: caught_status json_response_def)
    then show ?thesis
      using True falsy by auto
  qed
  have call: "truthy (metadata_get ?c ''orderId'') \<longrightarrow>
         POST v upd ts req st =
           (case upd (metadata_get ?c ''paymentId'') (payment_result_of ?c ts) st of
              (Inl e, st') \<Rightarrow> (caught e, st')
            | (Inr u, st') \<Rightarrow>
                (json_response (Message ''updateOrderToPaid was successful'') 200, st'))"
    using POST_update [where v = v and st = st and upd = upd, OF assms] by simp
  then have undefined_id:
    "truthy (metadata_get ?c ''orderId'') \<and> metadata_get ?c ''paymentId'' = None \<longrightarrow>
         POST v upd ts req st =
           (case upd None (payment_result_of ?c ts) st of
              (Inl e, st') \<Rightarrow> (caught e, st')
            | (Inr u, st') \<Rightarrow>
                (json_response (Message ''updateOrderToPaid was successful'') 200, st'))"
    by auto
  from check call undefined_id show ?thesis
    by (intro conjI)
qed

text \<open>
  The amended C4 on an event that carries \<^verbatim>\<open>orderId\<close> and no \<^verbatim>\<open>paymentId\<close>: the recording
  update action is called once, with \<open>None\<close>.
\<close>

theorem C4_witness:
  "POST sample_constructEvent recording_update ''2025-01-01T00:00:00.000Z''
     (sample_request ''charge-no-paymentId'') [] =
   (\<lparr> resp_status = 200, resp_body = Message ''updateOrderToPaid was successful'' \<rparr>, [None]) \<and>
   metadata_get (data_object (sample_event ''charge-no-paymentId'')) ''orderId'' = Some ''ord_1''"
proof -
  have "stripe_signature (sample_request ''charge-no-paymentId'') = Some sample_signature"
    and "sample_signature \<noteq> []"
    and "sample_constructEvent (req_body (sample_request ''charge-no-paymentId''))
           sample_signature = Inr (sample_event ''charge-no-paymentId'')"
    and "event_type (sample_event ''charge-no-paymentId'') = ''charge.succeeded''"
    by (simp_all add: sample_full_facts sample_event_variants)
  from C4_correlation_check_reads_orderId_and_passes_paymentId
         [where v = sample_constructEvent and upd = recording_update and st = "[]"
            and ts = "''2025-01-01T00:00:00.000Z''", OF this]
  show ?thesis
    by (simp add: sample_event_variants truthy_def recording_update_def json_response_def)
qed

subsection \<open>C5: missing or rejected signature\<close>

text \<open>
  C5 states that a request with a missing signature header, or with a signature that fails
  verification, is answered 400 without parsing the body and without store mutation. The
  missing header is answered 400 by the guard at the top of the route (\<open>POST_no_signature\<close>).
  A signature that \<^verbatim>\<open>constructEvent\<close> rejects raises inside the \<^verbatim>\<open>try\<close> block and reaches the
  generic \<^verbatim>\<open>catch\<close>, which answers 500 with the error text \<^verbatim>\<open>Failed to create conversation\<close>
  (\<open>POST_rejected\<close>); the update action is not called. The theorem evaluates the route on
  such a request.
\<close>

theorem C5_rejected_signature_is_answered_500:
  "sample_constructEvent ''charge-full'' ''t=1,v1=00000000'' =
     Inl (JsError ''No signatures found matching the expected signature for payload'') \<and>
   POST sample_constructEvent recording_update ''2025-01-01T00:00:00.000Z''
     \<lparr> req_body = ''charge-full'', stripe_signature = Some ''t=1,v1=00000000'' \<rparr> [] =
   (\<lparr> resp_status = 500,
      resp_body = ErrorWithMessage ''Failed to create conversation''
        ''No signatures found matching the expected signature for payload'' \<rparr>, [])"
proof -
  have rejected: "sample_constructEvent ''charge-full'' ''t=1,v1=00000000'' =
     Inl (JsError ''No signatures found matching the expected signature for payload'')"
    by (simp add: sample_constructEvent_def sample_signature_def)
  have "POST sample_constructEvent recording_update ''2025-01-01T00:00:00.000Z''
     \<lparr> req_body = ''charge-full'', stripe_signature = Some ''t=1,v1=00000000'' \<rparr> [] =
     (caught (JsError ''No signatures found matching the expected signature for payload''), [])"
    by (rule POST_rejected [where sg = "''t=1,v1=00000000''"]) (simp_all add: rejected)
  then show ?thesis
    by (simp add: rejected caught_def json_response_def)
qed

subsection \<open>C6: a \<^verbatim>\<open>paymentId\<close> that names no Payment\<close>

text \<open>
  C6 as stated says that a verified \<^verbatim>\<open>charge.succeeded\<close> event whose \<^verbatim>\<open>paymentId\<close> resolves to
  no Payment is answered with a 400/404-equivalent error. The failure of the update action
  is raised inside the \<^verbatim>\<open>try\<close> block of the route, whose \<^verbatim>\<open>catch\<close> answers every exception
  with status 500: on the empty store the sample event is answered 500.
\<close>

theorem C6_counterexample:
  "findPaymentById Map.empty
     (metadata_get (data_object (sample_event ''charge-full'')) ''paymentId'') = None \<and>
   resp_status (fst (POST sample_constructEvent (updatePaymentToPaid 2000)
      ''2025-01-01T00:00:00.000Z'' (sample_request ''charge-full'') Map.empty)) = 500 \<and>
   resp_status (fst (POST sample_constructEvent (updatePaymentToPaid 2000)
      ''2025-01-01T00:00:00.000Z'' (sample_request ''charge-full'') Map.empty)) \<notin> {400, 404}"
proof -
  have unknown: "findPaymentById Map.empty
     (metadata_get (data_object (sample_event ''charge-full'')) ''paymentId'') = None"
    by (simp add: sample_event_full findPaymentById_def)
  have "POST sample_constructEvent (updatePaymentToPaid 2000)
      ''2025-01-01T00:00:00.000Z'' (sample_request ''charge-full'') Map.empty =
      (caught UnknownPaymentError, Map.empty)"
    using POST_update [where v = sample_constructEvent and sg = sample_signature
        and req = "sample_request ''charge-full''" and ev = "sample_event ''charge-full''"
        and upd = "updatePaymentToPaid 2000" and st = Map.empty
        and ts = "''2025-01-01T00:00:00.000Z''"]
      updatePaymentToPaid_unknown [OF unknown, of 2000]
    by (simp add: sample_full_facts sample_event_full truthy_def)
  then show ?thesis
    using unknown by (simp add: caught_status)
qed

text \<open>
  C6, amended: for every verified \<^verbatim>\<open>charge.succeeded\<close> event whose correlation metadata is
  present but whose \<^verbatim>\<open>paymentId\<close> does not resolve to any existing Payment, the endpoint
  returns an error response, the 500 of the \<^verbatim>\<open>catch\<close> block with the error text and the
  message of the failure (surfaced rather than silently swallowed), and no store mutation
  occurs.
\<close>

theorem C6_unknown_payment_is_answered_500:
  assumes "stripe_signature req = Some sg" and "sg \<noteq> []"
    and "v (req_body req) sg = Inr ev"
    and "event_type ev = ''charge.succeeded''"
    and "truthy (metadata_get (data_object ev) ''orderId'')"
    and "findPaymentById st (metadata_get (data_object ev) ''paymentId'') = None"
  shows "POST v (updatePaymentToPaid now) ts req st = (caught UnknownPaymentError, st) \<and>
         resp_status (caught UnknownPaymentError) = 500 \<and>
         (\<exists>m. resp_body (caught UnknownPaymentError) =
                ErrorWithMessage ''Failed to create conversation'' m)"
  using POST_update [where v = v and st = st and upd = "updatePaymentToPaid now", OF assms(1-5)]
    updatePaymentToPaid_unknown [OF assms(6)]
  by (simp add: caught_def json_response_def)

theorem C6_witness:
  "POST sample_constructEvent (updatePaymentToPaid 2000) ''2025-01-01T00:00:00.000Z''
     (sample_request ''charge-full'') Map.empty =
   (\<lparr> resp_status = 500,
      resp_body = ErrorWithMessage ''Failed to create conversation'' ''UnknownPayment'' \<rparr>,
    Map.empty)"
proof -
  have "stripe_signature (sample_request ''charge-full'') = Some sample_signature"
    and "sample_signature \<noteq> []"
    and "sample_constructEvent (req_body (sample_request ''charge-full''))
           sample_signature = Inr (sample_event ''charge-full'')"
    and "event_type (sample_event ''charge-full'') = ''charge.succeeded''"
    and "truthy (metadata_get (data_object (sample_event ''charge-full'')) ''orderId'')"
    and "findPaymentById Map.empty
           (metadata_get (data_object (sample_event ''charge-full'')) ''paymentId'') = None"
    by (simp_all add: sample_full_facts sample_event_full truthy_def findPaymentById_def)
  from C6_unknown_payment_is_answered_500
         [where v = sample_constructEvent and st = Map.empty and now = 2000
            and ts = "''2025-01-01T00:00:00.000Z''", OF this]
  show ?thesis
    by (simp add: UnknownPaymentError_def caught_def json_response_def)
qed

subsection \<open>C7: missing correlation metadata\<close>

text \<open>
  C7: a verified \<^verbatim>\<open>charge.succeeded\<close> event whose payload lacks the correlation metadata
  (\<^verbatim>\<open>metadata.orderId\<close> is absent, or there is no metadata at all) is answered with a 400
  error response, and no store mutation occurs: the store is returned as it was, whatever
  update action is plugged in.
\<close>

theorem C7_missing_orderId_is_answered_400:
  assumes "stripe_signature req = Some sg" and "sg \<noteq> []"
    and "v (req_body req) sg = Inr ev"
    and "event_type ev = ''charge.succeeded''"
    and "metadata_get (data_object ev) ''orderId'' = None"
  shows "POST v upd ts req st =
           (\<lparr> resp_status = 400,
              resp_body = ErrorOnly ''No orderId found in payment metadata'' \<rparr>, st)"
  using POST_no_orderId [where v = v and st = st and upd = upd, OF assms(1-4)] assms(5)
  by (simp add: truthy_def json_response_def)

theorem C7_witness:
  "POST sample_constructEvent recording_update ''2025-01-01T00:00:00.000Z''
     (sample_request ''charge-no-orderId'') [] =
   (\<lparr> resp_status = 400,
      resp_body = ErrorOnly ''No orderId found in payment metadata'' \<rparr>, [])"
proof -
  have "stripe_signature (sample_request ''charge-no-orderId'') = Some sample_signature"
    and "sample_signature \<noteq> []"
    and "sample_constructEvent (req_body (sample_request ''charge-no-orderId''))
           sample_signature = Inr (sample_event ''charge-no-orderId'')"
    and "event_type (sample_event ''charge-no-orderId'') = ''charge.succeeded''"
    and "metadata_get (data_object (sample_event ''charge-no-orderId'')) ''orderId'' = None"
    by (simp_all add: sample_full_facts sample_event_variants)
  from C7_missing_orderId_is_answered_400 [where v = sample_constructEvent, OF this]
  show ?thesis .
qed

subsection \<open>C8: events of other types\<close>

text \<open>
  C8: a verified event whose type is not \<^verbatim>\<open>charge.succeeded\<close> is answered 200 with the
  message \<^verbatim>\<open>event is not charge.succeeded\<close>, and no store mutation occurs; such an event is
  never answered with an error.
\<close>

theorem C8_other_events_are_acknowledged:
  assumes "stripe_signature req = Some sg" and "sg \<noteq> []"
    and "v (req_body req) sg = Inr ev"
    and "event_type ev \<noteq> ''charge.succeeded''"
  shows "POST v upd ts req st =
           (\<lparr> resp_status = 200, resp_body = Message ''event is not charge.succeeded'' \<rparr>, st)"
  using POST_other_event [where v = v and st = st and upd = upd, OF assms]
  by (simp add: json_response_def)

theorem C8_witness:
  "POST sample_constructEvent recording_update ''2025-01-01T00:00:00.000Z''
     (sample_request ''ping'') [] =
   (\<lparr> resp_status = 200, resp_body = Message ''event is not charge.succeeded'' \<rparr>,
    [])"
proof -
  have "stripe_signature (sample_request ''ping'') = Some sample_signature"
    and "sample_signature \<noteq> []"
    and "sample_constructEvent (req_body (sample_request ''ping''))
           sample_signature = Inr (sample_event ''ping'')"
    and "event_type (sample_event ''ping'') \<noteq> ''charge.succeeded''"
    by (simp_all add: sample_full_facts sample_event_variants)
  from C8_other_events_are_acknowledged [where v = sample_constructEvent, OF this]
  show ?thesis .
qed

subsection \<open>C9: the state invariant of a Payment\<close>

text \<open>
  C9: every Payment preserves its state invariant under the reconciliation flow. Take any
  sequence of deliveries (any requests, any verdicts of the signature check, any clock
  readings) served against a store in which Payment \<open>i\<close> satisfies \<^verbatim>\<open>paidAt\<close> set iff
  \<^verbatim>\<open>isPaid\<close>. Afterwards Payment \<open>i\<close> still exists and satisfies the invariant, and if it was
  paid before, it is exactly the same row: \<^verbatim>\<open>isPaid\<close> never goes back to false and no second
  transition rewrites \<^verbatim>\<open>paidAt\<close>.
\<close>

theorem C9_payment_invariant_is_preserved:
  assumes "st i = Some p" and "payment_inv p"
  shows "\<exists>q. deliver_all v ds st i = Some q \<and> payment_inv q \<and> (isPaid p \<longrightarrow> q = p)"
  using assms
proof (induction ds arbitrary: st p)
  case Nil
  then show ?case by simp
next
  case (Cons d ds)
  from deliver_keeps_inv [where st = st and i = i and v = v and d = d, OF Cons.prems]
  obtain q where q: "snd (deliver v d st) i = Some q" "payment_inv q" "isPaid p \<longrightarrow> q = p"
    by blast
  from Cons.IH [where st = "snd (deliver v d st)", OF q(1) q(2)]
  obtain q' where q': "deliver_all v ds (snd (deliver v d st)) i = Some q'" "payment_inv q'"
      "isPaid q \<longrightarrow> q' = q"
    by blast
  have "isPaid p \<longrightarrow> q' = p"
    using q(3) q'(3) by auto
  then show ?case
    using q'(1,2) by simp
qed

text \<open>
  C9 on the sample Payment: it starts unpaid with the invariant, the first delivery marks
  it paid at 2000, and a redelivery at 7000 leaves \<^verbatim>\<open>paidAt\<close> at 2000.
\<close>

theorem C9_witness:
  "payment_inv sample_payment \<and> \<not> isPaid sample_payment \<and>
   map_option paidAt
     (deliver_all sample_constructEvent
        [\<lparr> d_request = sample_request ''charge-full'',
           d_now_iso = ''2025-01-01T00:00:00.000Z'', d_now = 2000 \<rparr>,
         \<lparr> d_request = sample_request ''charge-full'',
           d_now_iso = ''2025-01-01T00:00:05.000Z'', d_now = 7000 \<rparr>]
        sample_store ''pay_1'') = Some (Some 2000)"
proof -
  let ?d1 = "\<lparr> d_request = sample_request ''charge-full'',
           d_now_iso = ''2025-01-01T00:00:00.000Z'', d_now = 2000 \<rparr>"
  let ?d2 = "\<lparr> d_request = sample_request ''charge-full'',
           d_now_iso = ''2025-01-01T00:00:05.000Z'', d_now = 7000 \<rparr>"
  let ?paid = "sample_payment
      \<lparr> paymentResult := Some (payment_result_of (data_object (sample_event ''charge-full''))
           ''2025-01-01T00:00:00.000Z''),
        isPaid := True, paidAt := Some 2000 \<rparr>"
  let ?st1 = "snd (deliver sample_constructEvent ?d1 sample_store)"
  have st1: "?st1 ''pay_1'' = Some ?paid"
    by (simp add: deliver_def sample_first_delivery)
  have inv: "payment_inv ?paid"
    by (simp add: payment_inv_def)
  from C9_payment_invariant_is_preserved [where v = sample_constructEvent and ds = "[?d2]"
      and st = ?st1 and i = "''pay_1''", OF st1 inv]
  have "deliver_all sample_constructEvent [?d2] ?st1 ''pay_1'' = Some ?paid"
    by simp
  then show ?thesis
    by (simp add: payment_inv_def sample_payment_def)
qed

end
